theory Spec2Isabelle
  imports Main "HOL-Library.AList" "HOL-Library.Sublist"
begin

section \<open>JSON values and JavaScript string conversions\<close>

text \<open>
  Block configurations arrive as parsed JSON. Numbers are modelled as integers (the
  claims only use \<open>0\<close>, \<open>1\<close> and the calendar year), of a size JavaScript writes in
  plain decimal; an object is the list of its
  own entries in \<^verbatim>\<open>Object.entries\<close> order, with distinct keys; strings are ASCII. A value that may be \<^verbatim>\<open>undefined\<close> (a missing
  \<^verbatim>\<open>config\<close>, a missing property) has type \<open>json option\<close>, with \<open>None\<close> for
  \<^verbatim>\<open>undefined\<close>.
\<close>

datatype json =
    JNull
  | JBool bool
  | JNum int
  | JStr string
  | JArr "json list"
  | JObj "(string \<times> json) list"

datatype exn = TypeError | Unmodelled

definition digit_char :: "nat \<Rightarrow> char" where
  "digit_char d = ''0123456789abcdef'' ! d"

function show_nat :: "nat \<Rightarrow> string" where
  "show_nat n = (if n < 10 then [digit_char n] else show_nat (n div 10) @ [digit_char (n mod 10)])"
  by pat_completeness auto
termination
  by (relation "measure id") auto

declare show_nat.simps [simp del]

definition show_int :: "int \<Rightarrow> string" where
  "show_int i = (if i < 0 then CHR ''-'' # show_nat (nat (- i)) else show_nat (nat i))"

text \<open>Reading a decimal numeral back, to show that \<open>show_nat\<close> is injective.\<close>

definition digit_val :: "char \<Rightarrow> nat" where
  "digit_val c = of_char c - 48"

definition nat_of_digits :: "string \<Rightarrow> nat" where
  "nat_of_digits s = foldl (\<lambda>a c. 10 * a + digit_val c) 0 s"

text \<open>
  Converting a value to a string, as \<^verbatim>\<open>'' + v\<close> and \<^verbatim>\<open>Array.prototype.join\<close> do. An array
  joins its elements with commas, \<^verbatim>\<open>null\<close> elements as the empty string. An object
  is \<^verbatim>\<open>[object Object]\<close>; but an object with an own property \<^verbatim>\<open>toString\<close> shadows
  \<^verbatim>\<open>Object.prototype.toString\<close> with a value that is not a function (JSON holds no
  functions), and the conversion throws a TypeError.
\<close>

definition then_append :: "exn + string \<Rightarrow> exn + string \<Rightarrow> exn + string" where
  "then_append r1 r2 =
     (case r1 of
        Inl e \<Rightarrow> Inl e
      | Inr s \<Rightarrow> (case r2 of Inl e \<Rightarrow> Inl e | Inr t \<Rightarrow> Inr (s @ t)))"

definition object_to_primitive :: "(string \<times> json) list \<Rightarrow> exn + string" where
  "object_to_primitive kvs =
     (if ''toString'' \<in> set (map fst kvs) then Inl TypeError else Inr ''[object Object]'')"

fun js_ToString :: "json \<Rightarrow> exn + string"
  and js_join :: "json list \<Rightarrow> exn + string"
where
  "js_ToString JNull = Inr ''null''"
| "js_ToString (JBool b) = Inr (if b then ''true'' else ''false'')"
| "js_ToString (JNum n) = Inr (show_int n)"
| "js_ToString (JStr s) = Inr s"
| "js_ToString (JArr xs) = js_join xs"
| "js_ToString (JObj kvs) = object_to_primitive kvs"
| "js_join [] = Inr []"
| "js_join [x] = (if x = JNull then Inr [] else js_ToString x)"
| "js_join (x # y # rest) =
     then_append (if x = JNull then Inr [] else js_ToString x)
       (then_append (Inr '','') (js_join (y # rest)))"

text \<open>\<^verbatim>\<open>String(v)\<close> for a primitive \<open>v\<close>, where the conversion cannot throw; the sanitizer
  applies it to primitives only.\<close>

definition js_String :: "json \<Rightarrow> string" where
  "js_String v = (case js_ToString v of Inr s \<Rightarrow> s | Inl e \<Rightarrow> [])"

text \<open>\<^verbatim>\<open>JSON.stringify\<close> on a JSON value.\<close>

definition quote_char :: "char \<Rightarrow> string" where
  "quote_char c =
     (if c = CHR 0x22 then [CHR 0x5C, CHR 0x22]
      else if c = CHR 0x5C then [CHR 0x5C, CHR 0x5C]
      else if c = CHR 0x08 then [CHR 0x5C, CHR ''b'']
      else if c = CHR 0x0C then [CHR 0x5C, CHR ''f'']
      else if c = CHR 0x0A then [CHR 0x5C, CHR ''n'']
      else if c = CHR 0x0D then [CHR 0x5C, CHR ''r'']
      else if c = CHR 0x09 then [CHR 0x5C, CHR ''t'']
      else if (of_char c :: nat) < 32
        then [CHR 0x5C, CHR ''u'', CHR ''0'', CHR ''0'',
              digit_char ((of_char c :: nat) div 16), digit_char ((of_char c :: nat) mod 16)]
      else [c])"

definition quote_string :: "string \<Rightarrow> string" where
  "quote_string s = [CHR 0x22] @ concat (map quote_char s) @ [CHR 0x22]"

fun JSON_stringify :: "json \<Rightarrow> string"
  and stringify_members :: "(string \<times> json) list \<Rightarrow> string"
  and stringify_elements :: "json list \<Rightarrow> string"
where
  "JSON_stringify JNull = ''null''"
| "JSON_stringify (JBool b) = (if b then ''true'' else ''false'')"
| "JSON_stringify (JNum n) = show_int n"
| "JSON_stringify (JStr s) = quote_string s"
| "JSON_stringify (JArr xs) = ''['' @ stringify_elements xs @ '']''"
| "JSON_stringify (JObj kvs) = ''{'' @ stringify_members kvs @ ''}''"
| "stringify_members [] = ''''"
| "stringify_members [(k, v)] = quote_string k @ '':'' @ JSON_stringify v"
| "stringify_members ((k, v) # m # rest) =
     quote_string k @ '':'' @ JSON_stringify v @ '','' @ stringify_members (m # rest)"
| "stringify_elements [] = ''''"
| "stringify_elements [x] = JSON_stringify x"
| "stringify_elements (x # y # rest) = JSON_stringify x @ '','' @ stringify_elements (y # rest)"

section \<open>The config sanitizer\<close>

text \<open>\<^verbatim>\<open>escapeHtml(text)\<close>: \<^verbatim>\<open>text.replace(/[&<>"']/g, m => map[m])\<close>.\<close>

definition escapeChar :: "char \<Rightarrow> string" where
  "escapeChar c =
     (if c = CHR ''&'' then ''&amp;''
      else if c = CHR ''<'' then ''&lt;''
      else if c = CHR ''>'' then ''&gt;''
      else if c = CHR 0x22 then ''&quot;''
      else if c = CHR 0x27 then ''&#039;''
      else [c])"

definition escapeHtml :: "string \<Rightarrow> string" where
  "escapeHtml text = concat (map escapeChar text)"

text \<open>
  \<^verbatim>\<open>escapeBlockConfig(config)\<close>. The guard \<^verbatim>\<open>typeof config !== 'object' || config === null\<close>
  returns strings, numbers, booleans and \<^verbatim>\<open>null\<close> unchanged; an array passes the guard
  (\<^verbatim>\<open>typeof [] === 'object'\<close>) and is rebuilt from \<^verbatim>\<open>Object.entries\<close>, whose keys are the
  decimal indices (\<open>escapeIndexed\<close>). \<open>escapeValue key value\<close> is the body of the
  \<^verbatim>\<open>for\<close> loop, with its four branches in the source's order; for \<^verbatim>\<open>null\<close> the third
  branch (\<^verbatim>\<open>typeof value === 'object'\<close>) applies. \<open>escapeItem\<close> is the arrow function
  given to \<^verbatim>\<open>value.map\<close>: \<^verbatim>\<open>typeof item === 'object'\<close> holds for objects, arrays and
  \<^verbatim>\<open>null\<close>.

  The result is built by \<^verbatim>\<open>escaped[key] = ...\<close> on the literal \<^verbatim>\<open>{}\<close>. For the key
  \<^verbatim>\<open>__proto__\<close> (an own property of the input after \<^verbatim>\<open>JSON.parse\<close>) this assignment
  calls the setter of \<^verbatim>\<open>Object.prototype\<close> and creates no property: a string, number or
  boolean is ignored, an object, array or \<^verbatim>\<open>null\<close> becomes the prototype of \<^verbatim>\<open>escaped\<close>.
  \<open>escapeEntries\<close> therefore drops the entry; the prototype of an object is not part
  of a \<open>json\<close> value, so what the result inherits from a replaced prototype is not
  represented.
\<close>

fun escapeBlockConfig :: "json \<Rightarrow> json"
  and escapeEntries :: "(string \<times> json) list \<Rightarrow> (string \<times> json) list"
  and escapeIndexed :: "nat \<Rightarrow> json list \<Rightarrow> (string \<times> json) list"
  and escapeValue :: "string \<Rightarrow> json \<Rightarrow> json"
  and escapeItems :: "json list \<Rightarrow> json list"
  and escapeItem :: "json \<Rightarrow> json"
where
  "escapeBlockConfig JNull = JNull"
| "escapeBlockConfig (JBool b) = JBool b"
| "escapeBlockConfig (JNum n) = JNum n"
| "escapeBlockConfig (JStr s) = JStr s"
| "escapeBlockConfig (JObj kvs) = JObj (escapeEntries kvs)"
| "escapeBlockConfig (JArr xs) = JObj (escapeIndexed 0 xs)"
| "escapeEntries [] = []"
| "escapeEntries ((key, v) # rest) =
     (if key = ''__proto__'' then escapeEntries rest
      else (key, escapeValue key v) # escapeEntries rest)"
| "escapeIndexed i [] = []"
| "escapeIndexed i (v # rest) =
     (show_nat i, escapeValue (show_nat i) v) # escapeIndexed (Suc i) rest"
| "escapeValue key (JStr s) = (if key = ''content'' then JStr s else JStr (escapeHtml s))"
| "escapeValue key (JArr items) = JArr (escapeItems items)"
| "escapeValue key (JObj kvs) = escapeBlockConfig (JObj kvs)"
| "escapeValue key JNull = escapeBlockConfig JNull"
| "escapeValue key (JBool b) = JBool b"
| "escapeValue key (JNum n) = JNum n"
| "escapeItems [] = []"
| "escapeItems (item # rest) = escapeItem item # escapeItems rest"
| "escapeItem (JObj kvs) = escapeBlockConfig (JObj kvs)"
| "escapeItem (JArr xs) = escapeBlockConfig (JArr xs)"
| "escapeItem JNull = escapeBlockConfig JNull"
| "escapeItem (JStr s) = JStr (escapeHtml (js_String (JStr s)))"
| "escapeItem (JNum n) = JStr (escapeHtml (js_String (JNum n)))"
| "escapeItem (JBool b) = JStr (escapeHtml (js_String (JBool b)))"

subsection \<open>The sanitizer as the specification words it\<close>

text \<open>
  The reference definition, following the specification's sentences and not the code:
  on an object every string value is escaped unless its key is \<^verbatim>\<open>content\<close>; an array
  value is mapped element-wise, object elements sanitized recursively and scalar
  elements (strings, numbers, booleans, \<^verbatim>\<open>null\<close>) stringified and escaped; other scalar
  values pass through; a non-object input is returned unchanged. The specification
  does not say what happens to an array that is an element of an array; the reference
  maps it element-wise as well.
\<close>

fun sanitize_spec :: "json \<Rightarrow> json"
  and sanitize_fields :: "(string \<times> json) list \<Rightarrow> (string \<times> json) list"
  and sanitize_field :: "string \<Rightarrow> json \<Rightarrow> json"
  and sanitize_elements :: "json list \<Rightarrow> json list"
  and sanitize_element :: "json \<Rightarrow> json"
where
  "sanitize_spec (JObj kvs) = JObj (sanitize_fields kvs)"
| "sanitize_spec JNull = JNull"
| "sanitize_spec (JBool b) = JBool b"
| "sanitize_spec (JNum n) = JNum n"
| "sanitize_spec (JStr s) = JStr s"
| "sanitize_spec (JArr xs) = JArr xs"
| "sanitize_fields [] = []"
| "sanitize_fields ((key, v) # rest) = (key, sanitize_field key v) # sanitize_fields rest"
| "sanitize_field key (JStr s) = (if key = ''content'' then JStr s else JStr (escapeHtml s))"
| "sanitize_field key (JArr xs) = JArr (sanitize_elements xs)"
| "sanitize_field key (JObj kvs) = sanitize_spec (JObj kvs)"
| "sanitize_field key JNull = JNull"
| "sanitize_field key (JBool b) = JBool b"
| "sanitize_field key (JNum n) = JNum n"
| "sanitize_elements [] = []"
| "sanitize_elements (x # rest) = sanitize_element x # sanitize_elements rest"
| "sanitize_element (JObj kvs) = sanitize_spec (JObj kvs)"
| "sanitize_element (JArr xs) = JArr (sanitize_elements xs)"
| "sanitize_element JNull = JStr (escapeHtml (js_String JNull))"
| "sanitize_element (JStr s) = JStr (escapeHtml (js_String (JStr s)))"
| "sanitize_element (JNum n) = JStr (escapeHtml (js_String (JNum n)))"
| "sanitize_element (JBool b) = JStr (escapeHtml (js_String (JBool b)))"

text \<open>Configurations on which the two can be compared: the input is not itself an
  array, no array in it has \<^verbatim>\<open>null\<close> or an array among its elements, and no object in
  it has a key \<^verbatim>\<open>__proto__\<close>.\<close>

fun plain_config :: "json \<Rightarrow> bool"
  and plain_fields :: "(string \<times> json) list \<Rightarrow> bool"
  and plain_field :: "json \<Rightarrow> bool"
  and plain_elements :: "json list \<Rightarrow> bool"
  and plain_element :: "json \<Rightarrow> bool"
where
  "plain_config (JObj kvs) = plain_fields kvs"
| "plain_config (JArr xs) = False"
| "plain_config JNull = True"
| "plain_config (JBool b) = True"
| "plain_config (JNum n) = True"
| "plain_config (JStr s) = True"
| "plain_fields [] = True"
| "plain_fields ((key, v) # rest) =
     (key \<noteq> ''__proto__'' \<and> plain_field v \<and> plain_fields rest)"
| "plain_field (JArr xs) = plain_elements xs"
| "plain_field (JObj kvs) = plain_config (JObj kvs)"
| "plain_field JNull = True"
| "plain_field (JBool b) = True"
| "plain_field (JNum n) = True"
| "plain_field (JStr s) = True"
| "plain_elements [] = True"
| "plain_elements (x # rest) = (plain_element x \<and> plain_elements rest)"
| "plain_element (JObj kvs) = plain_config (JObj kvs)"
| "plain_element (JArr xs) = False"
| "plain_element JNull = False"
| "plain_element (JBool b) = True"
| "plain_element (JNum n) = True"
| "plain_element (JStr s) = True"


section \<open>The template engine\<close>

text \<open>
  Templates are compiled and run by the Handlebars library, which the page builder
  imports; only the two helpers \<^verbatim>\<open>if\<close> and \<^verbatim>\<open>each\<close> are the page builder's own code
  (\<^verbatim>\<open>Handlebars.registerHelper\<close>). The library is modelled on the syntax tree of a
  template, for the directives the block templates use: literal text, a
  double-brace expression \<^verbatim>\<open>{{path}}\<close>, and a block \<^verbatim>\<open>{{#helper path}} .. {{else}} .. {{/helper}}\<close>
  for a registered helper. A path has a number of leading \<^verbatim>\<open>../\<close> segments and a
  list of property names; \<^verbatim>\<open>this\<close> is the path with no names. A mustache whose single
  name is a registered helper is a helper call in Handlebars and is not a
  \<open>Mustache\<close> node here.
\<close>

datatype path = Path nat "string list"

datatype helper = IfHelper | EachHelper

datatype node =
    Text string
  | Mustache path
  | Block helper path "node list" "node list"

subsection \<open>Values with their identity\<close>

text \<open>
  Handlebars compares contexts with \<^verbatim>\<open>!=\<close>, and JavaScript compares two objects by
  identity. A template only reaches values of the root context, so an object or
  array is identified by the property names that lead to it from the root:
  \<open>Ref names v\<close> is the value \<open>v\<close> found there (\<open>None\<close> for \<^verbatim>\<open>undefined\<close>; the names
  of a primitive value play no role). \<open>NullContext\<close> is the sealed empty object
  \<^verbatim>\<open>container.nullContext\<close> that Handlebars passes as \<^verbatim>\<open>this\<close> to a helper called in an
  \<^verbatim>\<open>undefined\<close> or \<^verbatim>\<open>null\<close> context.
\<close>

datatype ref = Ref "string list" "json option" | NullContext

fun nullish :: "ref \<Rightarrow> bool" where
  "nullish (Ref names None) = True"
| "nullish (Ref names (Some JNull)) = True"
| "nullish (Ref names (Some v)) = False"
| "nullish NullContext = False"

fun is_object :: "ref \<Rightarrow> bool" where
  "is_object (Ref names (Some (JObj kvs))) = True"
| "is_object (Ref names (Some (JArr xs))) = True"
| "is_object (Ref names v) = False"
| "is_object NullContext = True"

text \<open>\<^verbatim>\<open>container.lookupProperty(parent, name)\<close>: own properties only (an inherited one
  is refused by the default prototype access control); an array or a string has
  \<^verbatim>\<open>length\<close> and its indices, written in decimal.\<close>

definition index_key :: "string \<Rightarrow> nat \<Rightarrow> nat option" where
  "index_key k n = find (\<lambda>i. show_nat i = k) [0..<n]"

fun lookupProperty :: "json \<Rightarrow> string \<Rightarrow> json option" where
  "lookupProperty (JObj kvs) k = map_of kvs k"
| "lookupProperty (JArr xs) k =
     (if k = ''length'' then Some (JNum (int (length xs)))
      else map_option (\<lambda>i. xs ! i) (index_key k (length xs)))"
| "lookupProperty (JStr s) k =
     (if k = ''length'' then Some (JNum (int (length s)))
      else map_option (\<lambda>i. JStr [s ! i]) (index_key k (length s)))"
| "lookupProperty JNull k = None"
| "lookupProperty (JBool b) k = None"
| "lookupProperty (JNum n) k = None"

fun lookup_ref :: "ref \<Rightarrow> string \<Rightarrow> ref" where
  "lookup_ref (Ref names (Some v)) k = Ref (names @ [k]) (lookupProperty v k)"
| "lookup_ref (Ref names None) k = Ref names None"
| "lookup_ref NullContext k = Ref [] None"

text \<open>A path is followed name by name and stops at \<^verbatim>\<open>undefined\<close> or \<^verbatim>\<open>null\<close>
  (\<^verbatim>\<open>x != null ? lookupProperty(x, name) : x\<close>).\<close>

fun lookup_segments :: "ref \<Rightarrow> string list \<Rightarrow> ref" where
  "lookup_segments r [] = r"
| "lookup_segments r (s # ss) =
     (if nullish r then r else lookup_segments (lookup_ref r s) ss)"

text \<open>
  A program runs with its context (\<^verbatim>\<open>depth0\<close>) and the list \<^verbatim>\<open>depths\<close> of the scopes
  around it. A path without \<^verbatim>\<open>../\<close> starts at the context; a path with \<open>d\<close> leading
  \<^verbatim>\<open>../\<close> starts at \<^verbatim>\<open>depths[d]\<close>, \<^verbatim>\<open>undefined\<close> when there are fewer scopes.
\<close>

definition depth_at :: "ref list \<Rightarrow> nat \<Rightarrow> ref" where
  "depth_at ds d = (if d < length ds then ds ! d else Ref [] None)"

fun resolve :: "path \<Rightarrow> ref \<Rightarrow> ref list \<Rightarrow> ref" where
  "resolve (Path d segs) ctx ds = lookup_segments (if d = 0 then ctx else depth_at ds d) segs"

text \<open>\<^verbatim>\<open>Handlebars.escapeExpression\<close>, which a double-brace expression applies to its
  value: nothing for \<^verbatim>\<open>undefined\<close> and \<^verbatim>\<open>null\<close>, otherwise the value as a string with
  \<^verbatim>\<open>& < > " ' ` =\<close> replaced by entities.\<close>

definition hbEscapeChar :: "char \<Rightarrow> string" where
  "hbEscapeChar c =
     (if c = CHR ''&'' then ''&amp;''
      else if c = CHR ''<'' then ''&lt;''
      else if c = CHR ''>'' then ''&gt;''
      else if c = CHR 0x22 then ''&quot;''
      else if c = CHR 0x27 then ''&#x27;''
      else if c = CHR 0x60 then ''&#x60;''
      else if c = CHR ''='' then ''&#x3D;''
      else [c])"

fun escapeExpression :: "ref \<Rightarrow> exn + string" where
  "escapeExpression NullContext = Inr ''[object Object]''"
| "escapeExpression (Ref names None) = Inr []"
| "escapeExpression (Ref names (Some JNull)) = Inr []"
| "escapeExpression (Ref names (Some v)) =
     (case js_ToString v of Inl e \<Rightarrow> Inl e | Inr s \<Rightarrow> Inr (concat (map hbEscapeChar s)))"

subsection \<open>Comparing a string with a number\<close>

text \<open>
  JavaScript converts a string to a number when it compares it with a number
  (\<^verbatim>\<open>i < j\<close>, \<^verbatim>\<open>x != y\<close>). Three cases are decided here: the empty string is 0; a string
  with a character that occurs in no numeric literal and is not white space is
  \<^verbatim>\<open>NaN\<close>; a string of decimal digits is the number it writes. For any other string
  (a sign, a fraction, an exponent, a hexadecimal literal, \<^verbatim>\<open>Infinity\<close>, surrounding
  white space) the conversion is left undecided, and an operation that needs it
  answers the exception \<open>Unmodelled\<close>.
\<close>

datatype tonumber = IsNaN | IsInt int | Undecided

definition literal_char :: "char \<Rightarrow> bool" where
  "literal_char c =
     (c \<in> set ''0123456789+-.abcdefABCDEFxXoOInity''
      \<or> c \<in> set [CHR 0x09, CHR 0x0A, CHR 0x0B, CHR 0x0C, CHR 0x0D, CHR 0x20]
      \<or> 128 \<le> (of_char c :: nat))"

definition StringToNumber :: "string \<Rightarrow> tonumber" where
  "StringToNumber s =
     (if s = [] then IsInt 0
      else if list_ex (\<lambda>c. \<not> literal_char c) s then IsNaN
      else if list_all (\<lambda>c. c \<in> set ''0123456789'') s then IsInt (int (nat_of_digits s))
      else Undecided)"

text \<open>\<^verbatim>\<open>ToPrimitive\<close> of an object or array (a TypeError for an object with an own
  \<^verbatim>\<open>toString\<close> property), and the number a primitive stands for.\<close>

fun to_primitive :: "ref \<Rightarrow> exn + json option" where
  "to_primitive NullContext = Inr (Some (JStr ''[object Object]''))"
| "to_primitive (Ref names (Some (JObj kvs))) =
     (case object_to_primitive kvs of Inl e \<Rightarrow> Inl e | Inr s \<Rightarrow> Inr (Some (JStr s)))"
| "to_primitive (Ref names (Some (JArr xs))) =
     (case js_join xs of Inl e \<Rightarrow> Inl e | Inr s \<Rightarrow> Inr (Some (JStr s)))"
| "to_primitive (Ref names v) = Inr v"

fun number_equals_string :: "int \<Rightarrow> string \<Rightarrow> exn + bool" where
  "number_equals_string n s =
     (case StringToNumber s of
        IsNaN \<Rightarrow> Inr False
      | IsInt m \<Rightarrow> Inr (m = n)
      | Undecided \<Rightarrow> Inl Unmodelled)"

text \<open>\<^verbatim>\<open>x == y\<close> on primitives: \<^verbatim>\<open>undefined\<close> and \<^verbatim>\<open>null\<close> equal each other and nothing
  else, a boolean counts as 0 or 1, a string meets a number as a number.\<close>

fun primitive_equal :: "json option \<Rightarrow> json option \<Rightarrow> exn + bool" where
  "primitive_equal None y = Inr (y = None \<or> y = Some JNull)"
| "primitive_equal (Some JNull) y = Inr (y = None \<or> y = Some JNull)"
| "primitive_equal (Some x) None = Inr False"
| "primitive_equal (Some x) (Some JNull) = Inr False"
| "primitive_equal (Some (JStr a)) (Some (JStr b)) = Inr (a = b)"
| "primitive_equal (Some (JStr a)) (Some (JNum n)) = number_equals_string n a"
| "primitive_equal (Some (JStr a)) (Some (JBool b)) = number_equals_string (if b then 1 else 0) a"
| "primitive_equal (Some (JNum n)) (Some (JStr b)) = number_equals_string n b"
| "primitive_equal (Some (JNum n)) (Some (JNum m)) = Inr (n = m)"
| "primitive_equal (Some (JNum n)) (Some (JBool b)) = Inr (n = (if b then 1 else 0))"
| "primitive_equal (Some (JBool a)) (Some (JStr b)) = number_equals_string (if a then 1 else 0) b"
| "primitive_equal (Some (JBool a)) (Some (JNum m)) = Inr ((if a then 1 else 0) = m)"
| "primitive_equal (Some (JBool a)) (Some (JBool b)) = Inr (a = b)"
| "primitive_equal (Some x) (Some y) = Inr False"

text \<open>\<^verbatim>\<open>x == y\<close>: two objects are equal when they are the same object; an object meets
  a primitive as its string.\<close>

definition loosely_equal :: "ref \<Rightarrow> ref \<Rightarrow> exn + bool" where
  "loosely_equal x y =
     (if is_object x \<and> is_object y then Inr (x = y)
      else if nullish x \<or> nullish y then Inr (nullish x \<and> nullish y)
      else (case to_primitive x of
              Inl e \<Rightarrow> Inl e
            | Inr px \<Rightarrow>
                (case to_primitive y of
                   Inl e \<Rightarrow> Inl e
                 | Inr py \<Rightarrow> primitive_equal px py)))"

subsection \<open>Programs and helpers\<close>

text \<open>
  The \<^verbatim>\<open>fn\<close> and \<^verbatim>\<open>inverse\<close> of a block run its body and its \<^verbatim>\<open>{{else}}\<close> part (the empty
  template when there is none) in the context they are given (\<^verbatim>\<open>wrapProgram\<close>):
  \<^verbatim>\<open>if (context != depths[0] && !(context === container.nullContext && depths[0] === null))
      currentDepths = [context].concat(depths);\<close>
\<close>

fun is_null :: "ref \<Rightarrow> bool" where
  "is_null (Ref names (Some JNull)) = True"
| "is_null r = False"

definition push_context :: "ref \<Rightarrow> ref list \<Rightarrow> exn + ref list" where
  "push_context c ds =
     (case loosely_equal c (depth_at ds 0) of
        Inl e \<Rightarrow> Inl e
      | Inr eq \<Rightarrow>
          Inr (if eq then ds
               else if c = NullContext \<and> is_null (depth_at ds 0) then ds
               else c # ds))"

text \<open>A helper is called with \<^verbatim>\<open>this\<close> bound to
  \<^verbatim>\<open>depth0 != null ? depth0 : container.nullContext\<close>.\<close>

definition helper_this :: "ref \<Rightarrow> ref" where
  "helper_this ctx = (if nullish ctx then NullContext else ctx)"

record options =
  fn :: "ref \<Rightarrow> exn + string"
  inverse :: "ref \<Rightarrow> exn + string"

text \<open>JavaScript's truthiness, under which every array and every object is true.\<close>

fun truthy :: "json option \<Rightarrow> bool" where
  "truthy None = False"
| "truthy (Some JNull) = False"
| "truthy (Some (JBool b)) = b"
| "truthy (Some (JNum n)) = (n \<noteq> 0)"
| "truthy (Some (JStr s)) = (s \<noteq> [])"
| "truthy (Some (JArr xs)) = True"
| "truthy (Some (JObj kvs)) = True"

fun ref_truthy :: "ref \<Rightarrow> bool" where
  "ref_truthy NullContext = True"
| "ref_truthy (Ref names v) = truthy v"

text \<open>The page builder's \<^verbatim>\<open>if\<close> helper:
  \<^verbatim>\<open>if (conditional) { return options.fn(this); } return options.inverse(this);\<close>\<close>

definition if_helper :: "ref \<Rightarrow> ref \<Rightarrow> options \<Rightarrow> exn + string" where
  "if_helper this conditional opts =
     (if ref_truthy conditional then fn opts this else inverse opts this)"

text \<open>The page builder's \<^verbatim>\<open>each\<close> helper:
  \<^verbatim>\<open>for (let i = 0, j = context.length; i < j; i++) { ret = ret + options.fn(context[i]); }\<close>
  Reading \<^verbatim>\<open>context.length\<close> throws a TypeError on \<^verbatim>\<open>undefined\<close> and \<^verbatim>\<open>null\<close>. \<open>loop_bound\<close>
  is the number of \<open>i\<close> with \<^verbatim>\<open>i < j\<close>: none when \<open>j\<close> is \<^verbatim>\<open>undefined\<close> (a number, a
  boolean, an object without \<^verbatim>\<open>length\<close>), and for a \<^verbatim>\<open>length\<close> that is not a number the
  number it converts to.\<close>

fun length_bound :: "json option \<Rightarrow> exn + nat" where
  "length_bound None = Inr 0"
| "length_bound (Some JNull) = Inr 0"
| "length_bound (Some (JBool b)) = Inr (if b then 1 else 0)"
| "length_bound (Some (JNum n)) = Inr (nat n)"
| "length_bound (Some v) =
     (case js_ToString v of
        Inl e \<Rightarrow> Inl e
      | Inr s \<Rightarrow>
          (case StringToNumber s of
             IsNaN \<Rightarrow> Inr 0
           | IsInt m \<Rightarrow> Inr (nat m)
           | Undecided \<Rightarrow> Inl Unmodelled))"

fun loop_bound :: "ref \<Rightarrow> exn + nat" where
  "loop_bound NullContext = Inr 0"
| "loop_bound (Ref names None) = Inl TypeError"
| "loop_bound (Ref names (Some JNull)) = Inl TypeError"
| "loop_bound (Ref names (Some v)) = length_bound (lookupProperty v ''length'')"

definition element_at :: "ref \<Rightarrow> nat \<Rightarrow> ref" where
  "element_at context i = lookup_ref context (show_nat i)"

function each_loop :: "ref \<Rightarrow> options \<Rightarrow> nat \<Rightarrow> nat \<Rightarrow> string \<Rightarrow> exn + string" where
  "each_loop context opts i j ret =
     (if i < j
      then (case fn opts (element_at context i) of
              Inl e \<Rightarrow> Inl e
            | Inr s \<Rightarrow> each_loop context opts (Suc i) j (ret @ s))
      else Inr ret)"
  by pat_completeness auto
termination
  by (relation "measure (\<lambda>(context, opts, i, j, ret). j - i)") auto

declare each_loop.simps [simp del]

definition each_helper :: "ref \<Rightarrow> options \<Rightarrow> exn + string" where
  "each_helper context opts =
     (case loop_bound context of
        Inl e \<Rightarrow> Inl e
      | Inr j \<Rightarrow> each_loop context opts 0 j [])"


text \<open>Running a compiled template: the nodes in order, the output concatenated; an
  exception ends the run. \<open>run_program\<close> is the \<^verbatim>\<open>fn\<close> or \<^verbatim>\<open>inverse\<close> of a block.\<close>

fun render_nodes :: "node list \<Rightarrow> ref \<Rightarrow> ref list \<Rightarrow> exn + string"
  and render_node :: "node \<Rightarrow> ref \<Rightarrow> ref list \<Rightarrow> exn + string"
  and run_program :: "node list \<Rightarrow> ref list \<Rightarrow> ref \<Rightarrow> exn + string"
where
  "render_nodes [] ctx ds = Inr []"
| "render_nodes (n # ns) ctx ds =
     (case render_node n ctx ds of
        Inl e \<Rightarrow> Inl e
      | Inr s \<Rightarrow> (case render_nodes ns ctx ds of Inl e \<Rightarrow> Inl e | Inr t \<Rightarrow> Inr (s @ t)))"
| "render_node (Text s) ctx ds = Inr s"
| "render_node (Mustache p) ctx ds = escapeExpression (resolve p ctx ds)"
| "render_node (Block IfHelper p program alt) ctx ds =
     if_helper (helper_this ctx) (resolve p ctx ds)
       \<lparr>fn = run_program program ds, inverse = run_program alt ds\<rparr>"
| "render_node (Block EachHelper p program alt) ctx ds =
     each_helper (resolve p ctx ds)
       \<lparr>fn = run_program program ds, inverse = run_program alt ds\<rparr>"
| "run_program program ds c =
     (case push_context c ds of
        Inl e \<Rightarrow> Inl e
      | Inr ds' \<Rightarrow> render_nodes program c ds')"

text \<open>\<^verbatim>\<open>Handlebars.compile(template)\<close>: the compiled template, applied to a root context
  (\<open>None\<close> when it is called without one).\<close>

definition run_template :: "node list \<Rightarrow> json option \<Rightarrow> exn + string" where
  "run_template template context = render_nodes template (Ref [] context) [Ref [] context]"

definition compile :: "node list \<Rightarrow> json \<Rightarrow> exn + string" where
  "compile template context = run_template template (Some context)"

section \<open>The page renderer\<close>

text \<open>
  A block is an object with a \<^verbatim>\<open>type\<close> and a \<^verbatim>\<open>config\<close>; \<open>config = None\<close> is a block
  without a \<^verbatim>\<open>config\<close> property. A row of \<^verbatim>\<open>block_types\<close> carries the columns the
  renderer reads, its template already parsed. A compiled template is a function of
  its root context.
\<close>

record block =
  btype :: string
  config :: "json option"

record block_type =
  bt_name :: string
  bt_template :: "node list"
  is_enabled :: bool

type_synonym template = "json option \<Rightarrow> exn + string"

definition error_marker :: "string \<Rightarrow> string" where
  "error_marker type = ''<!-- Error rendering '' @ type @ '' block -->''"

definition unknown_marker :: "string \<Rightarrow> string" where
  "unknown_marker type = ''<!-- Unknown block type: '' @ type @ '' -->''"

text \<open>
  The body of the \<^verbatim>\<open>try\<close> statement. \<^verbatim>\<open>escapeBlockConfig\<close> returns \<^verbatim>\<open>undefined\<close>, \<^verbatim>\<open>null\<close>
  and primitive values as they are, and the assignment \<^verbatim>\<open>safeConfig.year = ...\<close> then
  throws a TypeError: on \<^verbatim>\<open>undefined\<close> and \<^verbatim>\<open>null\<close> always, on a string, number or boolean
  because the file is an ES module and so runs in strict mode. Otherwise
  \<^verbatim>\<open>safeConfig\<close> is an object (\<^verbatim>\<open>escapeBlockConfig\<close> never returns an array), and \<^verbatim>\<open>year\<close>
  and \<^verbatim>\<open>jsonConfig\<close> are set on it: an existing property is overwritten in place, a new
  one is added last (\<open>AList.update\<close>). \<open>year\<close> is \<^verbatim>\<open>new Date().getFullYear()\<close>.
\<close>

definition render_try :: "template \<Rightarrow> int \<Rightarrow> json option \<Rightarrow> exn + string" where
  "render_try tpl year cfg =
     (case cfg of
        None \<Rightarrow> Inl TypeError
      | Some c \<Rightarrow>
          (case escapeBlockConfig c of
             JObj safeConfig \<Rightarrow>
               tpl (Some (JObj (AList.update ''jsonConfig'' (JStr (JSON_stringify c))
                                 (AList.update ''year'' (JNum year) safeConfig))))
           | _ \<Rightarrow> Inl TypeError))"

text \<open>The \<^verbatim>\<open>for (const block of blocks)\<close> loop, \<open>html\<close> being the string built so far.
  \<open>templates type\<close> is the value of \<^verbatim>\<open>templates[type]\<close>, \<open>None\<close> when it is falsy; that
  branch logs a warning on the console, which is not part of the returned string,
  and goes on to the next block.\<close>

fun render_loop :: "(string \<rightharpoonup> template) \<Rightarrow> int \<Rightarrow> block list \<Rightarrow> string \<Rightarrow> string" where
  "render_loop templates year [] html = html"
| "render_loop templates year (b # blocks) html =
     (case templates (btype b) of
        None \<Rightarrow> render_loop templates year blocks html
      | Some tpl \<Rightarrow>
          (case render_try tpl year (config b) of
             Inr out \<Rightarrow> render_loop templates year blocks (html @ out)
           | Inl error \<Rightarrow> render_loop templates year blocks (html @ error_marker (btype b))))"

definition renderBlocksWith :: "(string \<rightharpoonup> template) \<Rightarrow> int \<Rightarrow> block list \<Rightarrow> string" where
  "renderBlocksWith templates year blocks = render_loop templates year blocks []"

text \<open>The own properties of the object \<^verbatim>\<open>templates\<close>: one per row of
  \<^verbatim>\<open>SELECT name, template FROM block_types WHERE is_enabled = true\<close>, a later row
  replacing an earlier one of the same name. (A row named \<^verbatim>\<open>__proto__\<close> would replace
  the prototype of \<^verbatim>\<open>templates\<close> instead; the lookup of that name then finds the row's
  template, as here, and what else the object would inherit is not represented.)\<close>

fun build_templates :: "block_type list \<Rightarrow> (string \<rightharpoonup> template) \<Rightarrow> (string \<rightharpoonup> template)" where
  "build_templates [] templates = templates"
| "build_templates (bt # rows) templates =
     build_templates rows (templates(bt_name bt \<mapsto> run_template (bt_template bt)))"

text \<open>
  \<^verbatim>\<open>templates\<close> is created by the literal \<^verbatim>\<open>{}\<close> and inherits the members of
  \<^verbatim>\<open>Object.prototype\<close>. For a type that is no row's name but the name of such a member,
  \<^verbatim>\<open>templates[type]\<close> is truthy, and the \<^verbatim>\<open>try\<close> body calls the member with the sanitized
  config and appends the result to the HTML:
  \<^item> \<^verbatim>\<open>constructor\<close> returns the config object, appended as a string;
  \<^item> \<^verbatim>\<open>toString\<close> returns \<^verbatim>\<open>[object Object]\<close>; \<^verbatim>\<open>toLocaleString\<close> calls
    \<^verbatim>\<open>templates.toString()\<close>, and \<^verbatim>\<open>valueOf\<close> returns \<^verbatim>\<open>templates\<close>, which is appended through
    \<^verbatim>\<open>templates.toString()\<close>: the template of a row named \<^verbatim>\<open>toString\<close> (called without
    a context) when there is one;
  \<^item> \<^verbatim>\<open>hasOwnProperty\<close> and \<^verbatim>\<open>propertyIsEnumerable\<close> take the config as a property key
    and answer whether a row has that name; \<^verbatim>\<open>isPrototypeOf\<close> answers \<^verbatim>\<open>false\<close>;
  \<^item> \<^verbatim>\<open>__lookupGetter__\<close> and \<^verbatim>\<open>__lookupSetter__\<close> take the config as a property key and
    return \<^verbatim>\<open>undefined\<close>;
  \<^item> \<^verbatim>\<open>__defineGetter__\<close> and \<^verbatim>\<open>__defineSetter__\<close> throw a TypeError for the missing
    second argument, and \<^verbatim>\<open>__proto__\<close> is an object, not a function: calling it
    throws a TypeError.
\<close>

definition object_members :: "string list" where
  "object_members =
     [''constructor'', ''toString'', ''toLocaleString'', ''valueOf'', ''hasOwnProperty'',
      ''propertyIsEnumerable'', ''isPrototypeOf'', ''__lookupGetter__'', ''__lookupSetter__'',
      ''__defineGetter__'', ''__defineSetter__'', ''__proto__'']"

definition appended_string :: "json option \<Rightarrow> exn + string" where
  "appended_string v = (case v of None \<Rightarrow> Inr ''undefined'' | Some x \<Rightarrow> js_ToString x)"

definition templates_toString :: "(string \<rightharpoonup> template) \<Rightarrow> exn + string" where
  "templates_toString own =
     (case own ''toString'' of Some tpl \<Rightarrow> tpl None | None \<Rightarrow> Inr ''[object Object]'')"

definition has_row_named :: "(string \<rightharpoonup> template) \<Rightarrow> json option \<Rightarrow> exn + string" where
  "has_row_named own cfg =
     (case appended_string cfg of
        Inl e \<Rightarrow> Inl e
      | Inr key \<Rightarrow> Inr (if own key = None then ''false'' else ''true''))"

definition object_member :: "(string \<rightharpoonup> template) \<Rightarrow> string \<Rightarrow> template option" where
  "object_member own name =
     (if name = ''constructor'' then Some appended_string
      else if name = ''toString'' then Some (\<lambda>cfg. Inr ''[object Object]'')
      else if name = ''toLocaleString'' \<or> name = ''valueOf''
        then Some (\<lambda>cfg. templates_toString own)
      else if name = ''hasOwnProperty'' \<or> name = ''propertyIsEnumerable''
        then Some (has_row_named own)
      else if name = ''isPrototypeOf'' then Some (\<lambda>cfg. Inr ''false'')
      else if name = ''__lookupGetter__'' \<or> name = ''__lookupSetter__''
        then Some (\<lambda>cfg. case appended_string cfg of
                             Inl e \<Rightarrow> Inl e | Inr key \<Rightarrow> Inr ''undefined'')
      else if name = ''__defineGetter__'' \<or> name = ''__defineSetter__'' \<or> name = ''__proto__''
        then Some (\<lambda>cfg. Inl TypeError)
      else None)"

text \<open>\<^verbatim>\<open>templates[type]\<close>: an own property, or else an inherited member.\<close>

definition templates_lookup :: "(string \<rightharpoonup> template) \<Rightarrow> (string \<rightharpoonup> template)" where
  "templates_lookup own type =
     (case own type of Some tpl \<Rightarrow> Some tpl | None \<Rightarrow> object_member own type)"

definition renderBlocks :: "block_type list \<Rightarrow> int \<Rightarrow> block list \<Rightarrow> string" where
  "renderBlocks block_types year blocks =
     renderBlocksWith
       (templates_lookup (build_templates (filter is_enabled block_types) Map.empty))
       year blocks"

text \<open>What one block contributes to the page.\<close>

definition fragment :: "(string \<rightharpoonup> template) \<Rightarrow> int \<Rightarrow> block \<Rightarrow> string" where
  "fragment templates year b = renderBlocksWith templates year [b]"

section \<open>The page update route and its version snapshots\<close>

text \<open>
  The tables \<^verbatim>\<open>pages\<close> and \<^verbatim>\<open>page_versions\<close> with the columns the route
  \<^verbatim>\<open>PUT /api/pages/:id\<close> reads and writes, and the ids of the \<^verbatim>\<open>users\<close> table, which
  \<^verbatim>\<open>page_versions.created_by\<close> references. The column \<^verbatim>\<open>pages.blocks\<close> may be \<^verbatim>\<open>NULL\<close>
  (\<open>None\<close>); \<^verbatim>\<open>page_versions.blocks\<close> is \<^verbatim>\<open>NOT NULL\<close>. The columns \<^verbatim>\<open>theme_id\<close>,
  \<^verbatim>\<open>seo_settings\<close> and the timestamps follow the same \<^verbatim>\<open>COALESCE\<close> pattern and are left
  out. \<open>req_id\<close> is the integer the \<^verbatim>\<open>:id\<close> of the URL writes. Every \<^verbatim>\<open>db.query\<close> of
  the route is a statement of its own on the connection pool: the route opens no
  transaction, so a statement that succeeded stays in the database when a later one
  fails.
\<close>

record page =
  page_id :: int
  tenant_id :: int
  slug :: string
  title :: string
  meta_description :: string
  page_blocks :: "json option"
  is_published :: bool

record page_version =
  pv_page_id :: int
  version_number :: int
  pv_blocks :: json
  created_by :: int

record db =
  users :: "int list"
  pages :: "page list"
  page_versions :: "page_version list"

record put_request =
  req_id :: int
  req_tenantId :: int
  req_userId :: int
  req_slug :: "string option"
  req_title :: "string option"
  req_meta_description :: "string option"
  req_blocks :: "json option"
  req_is_published :: "bool option"

datatype db_error =
    UniqueViolation
  | ForeignKeyViolation
  | NotNullViolation
  | InvalidTextRepresentation
  | NumericValueOutOfRange

datatype response = Json200 page | NotFound404 | Error500

text \<open>The range of the column type \<^verbatim>\<open>INTEGER\<close>.\<close>

definition int4 :: "int \<Rightarrow> bool" where
  "int4 n = (- 2147483648 \<le> n \<and> n \<le> 2147483647)"

text \<open>
  A JavaScript value given to \<^verbatim>\<open>db.query\<close> as the parameter of a \<^verbatim>\<open>jsonb\<close> column. The route
  passes the value as it is, and the driver (node-postgres) turns \<^verbatim>\<open>undefined\<close> and
  \<^verbatim>\<open>null\<close> into \<^verbatim>\<open>NULL\<close>, a number or boolean into its text, an object into
  \<^verbatim>\<open>JSON.stringify\<close> of it, a string into itself, and an array into a Postgres array
  literal: \<^verbatim>\<open>{}\<close> for the empty array, which \<^verbatim>\<open>jsonb\<close> reads as the empty object, and for
  a non-empty array a text in braces whose first element is quoted, \<^verbatim>\<open>NULL\<close> or
  another brace, which is not JSON, so that the statement fails (error 22P02). The
  text of a string is read by the database's JSON input, the parameter \<open>jsonb_in\<close>
  (\<open>None\<close> when it rejects the text). An object is stored as given; that \<^verbatim>\<open>jsonb\<close>
  keeps the keys of an object in an order of its own is not represented.
\<close>

fun jsonb_param :: "(string \<Rightarrow> json option) \<Rightarrow> json option \<Rightarrow> db_error + json option" where
  "jsonb_param jsonb_in None = Inr None"
| "jsonb_param jsonb_in (Some JNull) = Inr None"
| "jsonb_param jsonb_in (Some (JBool b)) = Inr (Some (JBool b))"
| "jsonb_param jsonb_in (Some (JNum n)) = Inr (Some (JNum n))"
| "jsonb_param jsonb_in (Some (JStr s)) =
     (case jsonb_in s of None \<Rightarrow> Inl InvalidTextRepresentation | Some v \<Rightarrow> Inr (Some v))"
| "jsonb_param jsonb_in (Some (JArr [])) = Inr (Some (JObj []))"
| "jsonb_param jsonb_in (Some (JArr (x # xs))) = Inl InvalidTextRepresentation"
| "jsonb_param jsonb_in (Some (JObj kvs)) = Inr (Some (JObj kvs))"

text \<open>The value of a \<^verbatim>\<open>jsonb\<close> column in a result row: \<^verbatim>\<open>NULL\<close> is \<^verbatim>\<open>null\<close>.\<close>

definition column_value :: "json option \<Rightarrow> json" where
  "column_value c = (case c of None \<Rightarrow> JNull | Some v \<Rightarrow> v)"

text \<open>\<^verbatim>\<open>SELECT blocks FROM pages WHERE id = $1 AND tenant_id = $2\<close>\<close>

definition select_page :: "db \<Rightarrow> int \<Rightarrow> int \<Rightarrow> page list" where
  "select_page d i t = filter (\<lambda>p. page_id p = i \<and> tenant_id p = t) (pages d)"

text \<open>\<^verbatim>\<open>SELECT MAX(version_number) as max_version FROM page_versions WHERE page_id = $1\<close>:
  \<^verbatim>\<open>NULL\<close> (\<open>None\<close>) when the page has no version.\<close>

definition select_max_version :: "db \<Rightarrow> int \<Rightarrow> int option" where
  "select_max_version d i =
     (case map version_number (filter (\<lambda>v. pv_page_id v = i) (page_versions d)) of
        [] \<Rightarrow> None
      | n # ns \<Rightarrow> Some (fold max ns n))"

text \<open>\<^verbatim>\<open>max_version || 0\<close>\<close>

definition or_zero :: "int option \<Rightarrow> int" where
  "or_zero m = (case m of None \<Rightarrow> 0 | Some n \<Rightarrow> if n = 0 then 0 else n)"

text \<open>\<^verbatim>\<open>INSERT INTO page_versions (page_id, version_number, blocks, created_by)\<close> with the
  parameters \<^verbatim>\<open>[id, nextVersion, existingPage.rows[0].blocks, req.user.userId]\<close>. It
  fails when a parameter cannot be read (the blocks, an integer out of range), when
  the blocks are \<^verbatim>\<open>NULL\<close>, and when a foreign key or \<^verbatim>\<open>UNIQUE(page_id, version_number)\<close>
  is violated.\<close>

definition insert_version ::
  "(string \<Rightarrow> json option) \<Rightarrow> db \<Rightarrow> int \<Rightarrow> int \<Rightarrow> json \<Rightarrow> int \<Rightarrow> db_error + db" where
  "insert_version jsonb_in d i nextVersion blocks userId =
     (case jsonb_param jsonb_in (Some blocks) of
        Inl e \<Rightarrow> Inl e
      | Inr None \<Rightarrow> Inl NotNullViolation
      | Inr (Some snapshot) \<Rightarrow>
          (if int4 nextVersion \<and> int4 userId
           then (if i \<in> page_id ` set (pages d) \<and> userId \<in> set (users d)
                 then (if \<exists>w \<in> set (page_versions d).
                            pv_page_id w = i \<and> version_number w = nextVersion
                       then Inl UniqueViolation
                       else Inr (d\<lparr>page_versions := page_versions d @
                                   [\<lparr>pv_page_id = i, version_number = nextVersion,
                                     pv_blocks = snapshot, created_by = userId\<rparr>]\<rparr>))
                 else Inl ForeignKeyViolation)
           else Inl NumericValueOutOfRange))"

definition coalesce :: "'a option \<Rightarrow> 'a \<Rightarrow> 'a" where
  "coalesce new old = (case new of None \<Rightarrow> old | Some x \<Rightarrow> x)"

definition set_columns :: "put_request \<Rightarrow> json option \<Rightarrow> page \<Rightarrow> page" where
  "set_columns r new_blocks p =
     p\<lparr>slug := coalesce (req_slug r) (slug p),
       title := coalesce (req_title r) (title p),
       meta_description := coalesce (req_meta_description r) (meta_description p),
       page_blocks := (case new_blocks of None \<Rightarrow> page_blocks p | Some v \<Rightarrow> Some v),
       is_published := coalesce (req_is_published r) (is_published p)\<rparr>"

text \<open>The \<^verbatim>\<open>UPDATE pages SET ... WHERE id = $8 AND tenant_id = $9 RETURNING *\<close>
  statement: it fails when its \<^verbatim>\<open>blocks\<close> parameter cannot be read and when an updated
  row would share tenant and slug with another row (\<^verbatim>\<open>UNIQUE(tenant_id, slug)\<close>), and
  returns the updated rows otherwise.\<close>

definition update_page ::
  "(string \<Rightarrow> json option) \<Rightarrow> db \<Rightarrow> put_request \<Rightarrow> db_error + (db \<times> page list)" where
  "update_page jsonb_in d r =
     (case jsonb_param jsonb_in (req_blocks r) of
        Inl e \<Rightarrow> Inl e
      | Inr new_blocks \<Rightarrow>
          (let hit = (\<lambda>p. page_id p = req_id r \<and> tenant_id p = req_tenantId r);
               pages' = map (\<lambda>p. if hit p then set_columns r new_blocks p else p) (pages d)
           in if \<exists>p \<in> set pages'. \<exists>q \<in> set pages'.
                   page_id p \<noteq> page_id q \<and> tenant_id p = tenant_id q \<and> slug p = slug q
                   \<and> (hit p \<or> hit q)
              then Inl UniqueViolation
              else Inr (d\<lparr>pages := pages'\<rparr>, filter hit pages')))"

text \<open>The route handler. An id outside the range of \<^verbatim>\<open>INTEGER\<close> fails the first
  statement. An exception of any statement is caught by the handler's \<^verbatim>\<open>catch\<close>, which
  answers 500; the database is then as the statements before the failing one left
  it.\<close>

definition put_page :: "(string \<Rightarrow> json option) \<Rightarrow> put_request \<Rightarrow> db \<Rightarrow> db \<times> response" where
  "put_page jsonb_in r d =
     (if int4 (req_id r) \<and> int4 (req_tenantId r)
      then
        (let existingPage = select_page d (req_id r) (req_tenantId r);
             saved =
               (case existingPage of
                  [] \<Rightarrow> Inr d
                | row # _ \<Rightarrow>
                    (let nextVersion = or_zero (select_max_version d (req_id r)) + 1
                     in insert_version jsonb_in d (req_id r) nextVersion
                          (column_value (page_blocks row)) (req_userId r)))
         in case saved of
              Inl e \<Rightarrow> (d, Error500)
            | Inr d1 \<Rightarrow>
                (case update_page jsonb_in d1 r of
                   Inl e \<Rightarrow> (d1, Error500)
                 | Inr (d2, rows) \<Rightarrow>
                     (case rows of [] \<Rightarrow> (d2, NotFound404) | row # _ \<Rightarrow> (d2, Json200 row))))
      else (d, Error500))"

section \<open>Example data\<close>

text \<open>Block types in the shape of the seeded ones (\<^verbatim>\<open>004_website_builder.sql\<close>), cut
  down to the directive each example needs: a hero with \<^verbatim>\<open><h1>{{title}}</h1>\<close>, a text
  block with \<^verbatim>\<open><div>{{content}}</div>\<close>, a gallery with
  \<^verbatim>\<open>{{#each images}}<img src={{this.src}}>{{/each}}\<close>.\<close>

definition hero_type :: block_type where
  "hero_type = \<lparr>bt_name = ''hero'',
     bt_template = [Text ''<h1>'', Mustache (Path 0 [''title'']), Text ''</h1>''],
     is_enabled = True\<rparr>"

definition text_type :: block_type where
  "text_type = \<lparr>bt_name = ''text'',
     bt_template = [Text ''<div>'', Mustache (Path 0 [''content'']), Text ''</div>''],
     is_enabled = True\<rparr>"

definition gallery_type :: block_type where
  "gallery_type = \<lparr>bt_name = ''gallery'',
     bt_template = [Block EachHelper (Path 0 [''images''])
                      [Text ''<img src='', Mustache (Path 0 [''src'']), Text ''>''] []],
     is_enabled = True\<rparr>"

definition hero_block :: block where
  "hero_block = \<lparr>btype = ''hero'',
     config = Some (JObj [(''title'', JStr ''<script>alert(1)</script>''),
                          (''subtitle'', JStr ''Welcome'')])\<rparr>"

definition text_block :: block where
  "text_block = \<lparr>btype = ''text'', config = Some (JObj [(''content'', JStr ''<p>Hi</p>'')])\<rparr>"

definition welcome_block :: block where
  "welcome_block = \<lparr>btype = ''hero'', config = Some (JObj [(''title'', JStr ''Welcome'')])\<rparr>"

definition promo_block :: block where
  "promo_block = \<lparr>btype = ''promo'', config = Some (JObj [(''title'', JStr ''Sale'')])\<rparr>"

definition broken_gallery_block :: block where
  "broken_gallery_block = \<lparr>btype = ''gallery'', config = Some (JObj [])\<rparr>"

definition scalar_config_block :: block where
  "scalar_config_block = \<lparr>btype = ''hero'', config = Some (JStr ''Welcome'')\<rparr>"

text \<open>The template \<^verbatim>\<open>{{#if x}}A{{/if}}\<close>; the template
  \<^verbatim>\<open>{{#each items}}{{this.name}}-{{../title}}{{/each}}\<close> with its data; and the template
  \<^verbatim>\<open>{{#each items}}{{this}}-{{../title}}{{/each}}\<close> with an item that is the text
  \<^verbatim>\<open>[object Object]\<close>.\<close>

definition if_x_section :: "node list" where
  "if_x_section = [Block IfHelper (Path 0 [''x'']) [Text ''A''] []]"

definition each_items_body :: "node list" where
  "each_items_body = [Mustache (Path 0 [''name'']), Text ''-'', Mustache (Path 1 [''title''])]"

definition shop_items :: "json list" where
  "shop_items = [JObj [(''name'', JStr ''p1'')], JObj [(''name'', JStr ''p2'')]]"

definition shop_config :: "(string \<times> json) list" where
  "shop_config = [(''items'', JArr shop_items), (''title'', JStr ''Shop'')]"

definition each_this_section :: "node list" where
  "each_this_section =
     [Block EachHelper (Path 0 [''items''])
        [Mustache (Path 0 []), Text ''-'', Mustache (Path 1 [''title''])] []]"

definition odd_shop_config :: json where
  "odd_shop_config = JObj [(''items'', JArr [JStr ''[object Object]'']), (''title'', JStr ''Shop'')]"

text \<open>A configuration with every kind of value the sanitizer and its reference agree
  on.\<close>

definition mixed_config :: json where
  "mixed_config =
     JObj [(''title'', JStr ''<b>''), (''content'', JStr ''<p>''), (''n'', JNum 3),
           (''flag'', JBool True), (''none'', JNull),
           (''tags'', JArr [JStr ''a&b'', JBool True, JNum 7,
                            JObj [(''content'', JStr ''<i>''), (''k'', JStr [CHR 0x22])]])]"

text \<open>A database with one tenant and two pages without versions: page 1 holds a list
  with one hero block, page 2 the empty list (the default of the column). Requests of
  user 5 to update a page, with a new slug or new blocks or neither.\<close>

definition hero_blocks :: json where
  "hero_blocks =
     JArr [JObj [(''type'', JStr ''hero''), (''config'', JObj [(''title'', JStr ''Welcome'')])]]"

definition example_db :: db where
  "example_db = \<lparr>users = [5],
     pages = [\<lparr>page_id = 1, tenant_id = 7, slug = ''home'', title = ''Home'',
               meta_description = [], page_blocks = Some hero_blocks, is_published = False\<rparr>,
              \<lparr>page_id = 2, tenant_id = 7, slug = ''about'', title = ''About'',
               meta_description = [], page_blocks = Some (JArr []), is_published = False\<rparr>],
     page_versions = []\<rparr>"

definition example_put :: "int \<Rightarrow> string option \<Rightarrow> json option \<Rightarrow> put_request" where
  "example_put i new_slug new_blocks =
     \<lparr>req_id = i, req_tenantId = 7, req_userId = 5, req_slug = new_slug, req_title = None,
      req_meta_description = None, req_blocks = new_blocks, req_is_published = None\<rparr>"

text \<open>A \<^verbatim>\<open>config\<close> that is not an object: missing, \<^verbatim>\<open>null\<close>, a boolean, a number or a
  string.\<close>

fun non_object_config :: "json option \<Rightarrow> bool" where
  "non_object_config None = True"
| "non_object_config (Some JNull) = True"
| "non_object_config (Some (JBool b)) = True"
| "non_object_config (Some (JNum n)) = True"
| "non_object_config (Some (JStr s)) = True"
| "non_object_config (Some (JArr xs)) = False"
| "non_object_config (Some (JObj kvs)) = False"

section \<open>Properties of the sanitizer\<close>

lemma sanitizer_agrees:
  "plain_config c \<Longrightarrow> escapeBlockConfig c = sanitize_spec c"
  "plain_fields kvs \<Longrightarrow> escapeEntries kvs = sanitize_fields kvs"
  "length (escapeIndexed i ys) = length ys"
  "plain_field v \<Longrightarrow> escapeValue key v = sanitize_field key v"
  "plain_elements xs \<Longrightarrow> escapeItems xs = sanitize_elements xs"
  "plain_element x \<Longrightarrow> escapeItem x = sanitize_element x"
  by (induction c and kvs and i ys and key v and xs and x
      rule: escapeBlockConfig_escapeEntries_escapeIndexed_escapeValue_escapeItems_escapeItem.induct)
     simp_all

lemmas sanitizer_eval =
  escapeHtml_def escapeChar_def mixed_config_def js_String_def

text \<open>
  C2, as stated, fails: for a \<^verbatim>\<open>null\<close> element of an array the code takes the branch
  \<^verbatim>\<open>typeof item === 'object'\<close> and returns \<^verbatim>\<open>null\<close>, where the reference definition
  stringifies a scalar element and gives the string \<^verbatim>\<open>null\<close>.
\<close>

theorem sanitizer_null_item_counterexample:
  "escapeBlockConfig (JObj [(''tags'', JArr [JNull])]) = JObj [(''tags'', JArr [JNull])]
   \<and> sanitize_spec (JObj [(''tags'', JArr [JNull])]) = JObj [(''tags'', JArr [JStr ''null''])]
   \<and> escapeBlockConfig (JObj [(''tags'', JArr [JNull])])
       \<noteq> sanitize_spec (JObj [(''tags'', JArr [JNull])])"
  by (simp add: sanitizer_eval)

text \<open>
  C2, amended: \<^verbatim>\<open>escapeBlockConfig\<close> equals the reference definition on every input that
  is not itself an array and in which no array has \<^verbatim>\<open>null\<close> or another array among its
  elements and no object has a key \<^verbatim>\<open>__proto__\<close> (the assignment \<^verbatim>\<open>escaped[key] = ...\<close>
  creates no property for that key).
\<close>

theorem sanitizer_refines_spec:
  assumes "plain_config c"
  shows "escapeBlockConfig c = sanitize_spec c"
  using assms by (rule sanitizer_agrees(1))

text \<open>The amended C2 at a configuration with strings, a \<^verbatim>\<open>content\<close> field, scalars and
  an array holding strings, scalars and an object.\<close>

theorem sanitizer_refines_spec_witness:
  "plain_config mixed_config
   \<and> escapeBlockConfig mixed_config = sanitize_spec mixed_config
   \<and> escapeBlockConfig mixed_config =
       JObj [(''title'', JStr ''&lt;b&gt;''), (''content'', JStr ''<p>''), (''n'', JNum 3),
             (''flag'', JBool True), (''none'', JNull),
             (''tags'', JArr [JStr ''a&amp;b'', JStr ''true'', JStr ''7'',
                              JObj [(''content'', JStr ''<i>''), (''k'', JStr ''&quot;'')]])]"
proof -
  have p: "plain_config mixed_config" by (simp add: mixed_config_def)
  have "show_nat 7 = ''7''" by (simp add: show_nat.simps digit_char_def)
  then have "escapeBlockConfig mixed_config =
       JObj [(''title'', JStr ''&lt;b&gt;''), (''content'', JStr ''<p>''), (''n'', JNum 3),
             (''flag'', JBool True), (''none'', JNull),
             (''tags'', JArr [JStr ''a&amp;b'', JStr ''true'', JStr ''7'',
                              JObj [(''content'', JStr ''<i>''), (''k'', JStr ''&quot;'')]])]"
    by (simp add: sanitizer_eval show_int_def)
  with p sanitizer_refines_spec [OF p] show ?thesis by simp
qed

section \<open>Properties of the template engine\<close>














lemma push_same:
  "push_context (helper_this c) (c # ds) =
     Inr (if nullish c \<and> \<not> is_null c then NullContext # c # ds else c # ds)"
proof (cases c)
  case NullContext
  then show ?thesis
    by (simp add: push_context_def loosely_equal_def depth_at_def helper_this_def)
next
  case (Ref names v)
  show ?thesis
  proof (cases v)
    case None
    with Ref show ?thesis
      by (simp add: push_context_def loosely_equal_def depth_at_def helper_this_def)
  next
    case (Some x)
    with Ref show ?thesis
      by (cases x)
         (simp_all add: push_context_def loosely_equal_def depth_at_def helper_this_def)
  qed
qed

lemmas engine_eval =
  compile_def run_template_def depth_at_def push_context_def loosely_equal_def helper_this_def
  if_helper_def each_helper_def element_at_def hbEscapeChar_def object_to_primitive_def
  then_append_def StringToNumber_def literal_char_def index_key_def
  if_x_section_def each_items_body_def shop_items_def shop_config_def
  each_this_section_def odd_shop_config_def

text \<open>
  C3, as stated, fails: the page builder's \<^verbatim>\<open>if\<close> helper tests \<^verbatim>\<open>if (conditional)\<close>,
  and an empty array is true in JavaScript; \<^verbatim>\<open>{{#if x}}A{{/if}}\<close> with \<^verbatim>\<open>x = []\<close> renders
  \<^verbatim>\<open>A\<close>, not the empty string.
\<close>

theorem if_empty_array_counterexample:
  "compile if_x_section (JObj [(''x'', JArr [])]) = Inr ''A''
   \<and> compile if_x_section (JObj [(''x'', JArr [])]) \<noteq> Inr []"
  by (simp add: engine_eval)

text \<open>
  C3, amended: a section \<^verbatim>\<open>{{#if field}}A{{else}}B{{/if}}\<close> renders branch A exactly when
  the field is truthy in JavaScript's sense, and branch B (nothing, without
  \<^verbatim>\<open>{{else}}\<close>) otherwise; the falsy values are \<^verbatim>\<open>undefined\<close>/missing, \<^verbatim>\<open>null\<close>, \<^verbatim>\<open>false\<close>,
  \<^verbatim>\<open>0\<close> and the empty string, and every array, the empty one too, is truthy. So
  \<^verbatim>\<open>{{#if x}}A{{/if}}\<close> renders the empty string with \<open>x\<close> absent, \<^verbatim>\<open>""\<close>, \<^verbatim>\<open>false\<close> or
  \<^verbatim>\<open>0\<close>, and renders \<^verbatim>\<open>A\<close> with \<open>x\<close> = \<^verbatim>\<open>"yes"\<close>, \<^verbatim>\<open>1\<close> or \<^verbatim>\<open>[]\<close>. The branch runs in the
  context of the section and its scopes (for an object context: first equation); in
  an \<^verbatim>\<open>undefined\<close> or \<^verbatim>\<open>null\<close> context Handlebars puts its empty object in the place of
  \<^verbatim>\<open>this\<close> (second equation).
\<close>

theorem if_renders_by_truthiness:
  "render_node (Block IfHelper p a b) (Ref names (Some (JObj kvs)))
       (Ref names (Some (JObj kvs)) # ds) =
     (if ref_truthy (resolve p (Ref names (Some (JObj kvs))) (Ref names (Some (JObj kvs)) # ds))
      then render_nodes a (Ref names (Some (JObj kvs))) (Ref names (Some (JObj kvs)) # ds)
      else render_nodes b (Ref names (Some (JObj kvs))) (Ref names (Some (JObj kvs)) # ds))
   \<and> render_node (Block IfHelper p a b) c (c # ds) =
     (if ref_truthy (resolve p c (c # ds))
      then render_nodes a (helper_this c)
             (if nullish c \<and> \<not> is_null c then NullContext # c # ds else c # ds)
      else render_nodes b (helper_this c)
             (if nullish c \<and> \<not> is_null c then NullContext # c # ds else c # ds))
   \<and> (truthy v \<longleftrightarrow>
        v \<notin> {None, Some JNull, Some (JBool False), Some (JNum 0), Some (JStr [])})
   \<and> compile if_x_section (JObj []) = Inr []
   \<and> compile if_x_section (JObj [(''x'', JStr [])]) = Inr []
   \<and> compile if_x_section (JObj [(''x'', JBool False)]) = Inr []
   \<and> compile if_x_section (JObj [(''x'', JNum 0)]) = Inr []
   \<and> compile if_x_section (JObj [(''x'', JStr ''yes'')]) = Inr ''A''
   \<and> compile if_x_section (JObj [(''x'', JNum 1)]) = Inr ''A''
   \<and> compile if_x_section (JObj [(''x'', JArr [])]) = Inr ''A''"
proof -
  have t: "truthy v \<longleftrightarrow> v \<notin> {None, Some JNull, Some (JBool False), Some (JNum 0), Some (JStr [])}"
    by (cases v rule: truthy.cases) auto
  have g: "render_node (Block IfHelper p a b) c (c # ds) =
     (if ref_truthy (resolve p c (c # ds))
      then render_nodes a (helper_this c)
             (if nullish c \<and> \<not> is_null c then NullContext # c # ds else c # ds)
      else render_nodes b (helper_this c)
             (if nullish c \<and> \<not> is_null c then NullContext # c # ds else c # ds))" for c
    by (simp add: if_helper_def push_same)
  have o: "render_node (Block IfHelper p a b) (Ref names (Some (JObj kvs)))
       (Ref names (Some (JObj kvs)) # ds) =
     (if ref_truthy (resolve p (Ref names (Some (JObj kvs))) (Ref names (Some (JObj kvs)) # ds))
      then render_nodes a (Ref names (Some (JObj kvs))) (Ref names (Some (JObj kvs)) # ds)
      else render_nodes b (Ref names (Some (JObj kvs))) (Ref names (Some (JObj kvs)) # ds))"
    using g [of "Ref names (Some (JObj kvs))"] by (simp add: helper_this_def)
  have "compile if_x_section (JObj []) = Inr []"
    and "compile if_x_section (JObj [(''x'', JStr [])]) = Inr []"
    and "compile if_x_section (JObj [(''x'', JBool False)]) = Inr []"
    and "compile if_x_section (JObj [(''x'', JNum 0)]) = Inr []"
    and "compile if_x_section (JObj [(''x'', JStr ''yes'')]) = Inr ''A''"
    and "compile if_x_section (JObj [(''x'', JNum 1)]) = Inr ''A''"
    and "compile if_x_section (JObj [(''x'', JArr [])]) = Inr ''A''"
    by (simp_all add: engine_eval)
  with t g o show ?thesis by blast
qed




section \<open>Properties of the page renderer\<close>

lemma render_loop_html:
  "render_loop templates year blocks html = html @ render_loop templates year blocks []"
proof (induction blocks arbitrary: html)
  case Nil
  show ?case by simp
next
  case (Cons b blocks)
  show ?case
  proof (cases "templates (btype b)")
    case None
    with Cons.IH [of html] show ?thesis by simp
  next
    case (Some tpl)
    show ?thesis
    proof (cases "render_try tpl year (config b)")
      case (Inl e)
      with Some Cons.IH [of "html @ error_marker (btype b)"] Cons.IH [of "error_marker (btype b)"]
      show ?thesis by simp
    next
      case (Inr out)
      with Some Cons.IH [of "html @ out"] Cons.IH [of out]
      show ?thesis by simp
    qed
  qed
qed

lemma render_loop_append:
  "render_loop templates year (xs @ ys) html =
     render_loop templates year ys (render_loop templates year xs html)"
  by (induction xs arbitrary: html) (auto split: option.splits sum.splits)

lemma renderBlocksWith_append:
  "renderBlocksWith templates year (xs @ ys) =
     renderBlocksWith templates year xs @ renderBlocksWith templates year ys"
  unfolding renderBlocksWith_def
  by (subst render_loop_append, subst render_loop_html) simp

lemma renderBlocksWith_Cons:
  "renderBlocksWith templates year (b # bs) =
     fragment templates year b @ renderBlocksWith templates year bs"
  using renderBlocksWith_append [of templates year "[b]" bs] by (simp add: fragment_def)

lemma fragment_unknown:
  "templates (btype b) = None \<Longrightarrow> fragment templates year b = []"
  by (simp add: fragment_def renderBlocksWith_def)

lemma fragment_error:
  "templates (btype b) = Some tpl \<Longrightarrow> render_try tpl year (config b) = Inl e \<Longrightarrow>
   fragment templates year b = error_marker (btype b)"
  by (simp add: fragment_def renderBlocksWith_def)

lemma fragment_ok:
  "templates (btype b) = Some tpl \<Longrightarrow> render_try tpl year (config b) = Inr out \<Longrightarrow>
   fragment templates year b = out"
  by (simp add: fragment_def renderBlocksWith_def)

lemma renderBlocksWith_Nil: "renderBlocksWith templates year [] = []"
  by (simp add: renderBlocksWith_def)

lemma renderBlocksWith_snoc_split:
  "renderBlocksWith templates year (pre @ [b] @ post) =
     renderBlocksWith templates year pre @ fragment templates year b
       @ renderBlocksWith templates year post"
  by (simp only: renderBlocksWith_append fragment_def)

lemma render_try_non_object:
  "non_object_config cfg \<Longrightarrow> render_try tpl year cfg = Inl TypeError"
  by (cases cfg rule: non_object_config.cases) (simp_all add: render_try_def)

lemma escape_non_object:
  "non_object_config cfg \<Longrightarrow> map_option escapeBlockConfig cfg = cfg"
  by (cases cfg rule: non_object_config.cases) simp_all

lemma build_templates_None:
  "build_templates rows templates name = None \<longleftrightarrow>
     name \<notin> bt_name ` set rows \<and> templates name = None"
  by (induction rows arbitrary: templates) auto

lemma object_member_None:
  "name \<notin> set object_members \<Longrightarrow> object_member own name = None"
  by (simp add: object_members_def object_member_def)

lemma templates_lookup_None:
  assumes "name \<notin> bt_name ` set (filter is_enabled block_types)"
    and "name \<notin> set object_members"
  shows "templates_lookup (build_templates (filter is_enabled block_types) Map.empty) name = None"
proof -
  have "build_templates (filter is_enabled block_types) Map.empty name = None"
    using assms(1) build_templates_None [of "filter is_enabled block_types" Map.empty name]
    by blast
  then show ?thesis
    using object_member_None [OF assms(2)] by (simp add: templates_lookup_def)
qed

lemmas render_eval =
  renderBlocks_def renderBlocksWith_def render_try_def compile_def run_template_def
  fragment_def templates_lookup_def object_member_def appended_string_def
  templates_toString_def has_row_named_def
  escapeHtml_def escapeChar_def hbEscapeChar_def depth_at_def
  push_context_def loosely_equal_def helper_this_def object_to_primitive_def then_append_def
  if_helper_def each_helper_def error_marker_def unknown_marker_def
  hero_type_def text_type_def gallery_type_def hero_block_def text_block_def
  welcome_block_def promo_block_def broken_gallery_block_def scalar_config_block_def

text \<open>
  C1 (the code departs from it): the sanitizer escapes the title once, and the
  double-brace expression \<^verbatim>\<open>{{title}}\<close> of the template escapes the result again, so the
  hero block of the specification's scenario renders with \<^verbatim>\<open>&amp;lt;\<close> where the claim has
  \<^verbatim>\<open>&lt;\<close>; and a \<^verbatim>\<open>content\<close> field, which the sanitizer leaves as it is, is escaped by
  \<^verbatim>\<open>{{content}}\<close> and does not appear byte-for-byte.
\<close>

theorem hero_title_escaped_twice:
  "renderBlocks [hero_type] year [hero_block] =
     ''<h1>&amp;lt;script&amp;gt;alert(1)&amp;lt;/script&amp;gt;</h1>''
   \<and> renderBlocks [text_type] year [text_block] = ''<div>&lt;p&gt;Hi&lt;/p&gt;</div>''"
  by (simp add: render_eval)

text \<open>
  C5, as stated, fails: for a block whose type has no template the loop logs a
  warning and continues; nothing is added to the HTML, no marker comment either.
\<close>

theorem unknown_type_marker_counterexample:
  "renderBlocks [hero_type] 2026 [welcome_block, promo_block, welcome_block] =
     ''<h1>Welcome</h1><h1>Welcome</h1>''
   \<and> renderBlocks [hero_type] 2026 [promo_block] = []
   \<and> \<not> sublist (unknown_marker (btype promo_block)) (renderBlocks [hero_type] 2026 [promo_block])"
  by (simp add: render_eval)

text \<open>
  C5, amended: a block whose type is not the name of an enabled block type and not
  the name of a member that every object inherits from \<^verbatim>\<open>Object.prototype\<close>
  (\<^verbatim>\<open>constructor\<close>, \<^verbatim>\<open>toString\<close>, \<^verbatim>\<open>__proto__\<close> and the others of \<open>object_members\<close>)
  contributes nothing to the output (no marker comment); rendering continues, and the
  output is the HTML of all other blocks, unchanged and in order. This is for block
  types none of which is itself named \<^verbatim>\<open>__proto__\<close> (such a row would change what
  \<^verbatim>\<open>templates\<close> inherits).
\<close>

theorem unknown_type_skipped:
  assumes "btype b \<notin> bt_name ` set (filter is_enabled block_types)"
    and "btype b \<notin> set object_members"
    and "''__proto__'' \<notin> bt_name ` set (filter is_enabled block_types)"
  shows "renderBlocks block_types year [b] = [] \<and>
         renderBlocks block_types year (pre @ [b] @ post) =
           renderBlocks block_types year pre @ renderBlocks block_types year post"
proof -
  have "templates_lookup (build_templates (filter is_enabled block_types) Map.empty) (btype b)
          = None"
    using assms(1,2) by (rule templates_lookup_None)
  then show ?thesis
    using fragment_unknown [of _ b year]
    by (simp add: renderBlocks_def renderBlocksWith_snoc_split fragment_def [symmetric]
        del: append_Cons)
qed

text \<open>The amended C5 with the hero type registered and a block of type promo between
  two hero blocks.\<close>

theorem unknown_type_skipped_witness:
  "btype promo_block \<notin> bt_name ` set (filter is_enabled [hero_type])
   \<and> btype promo_block \<notin> set object_members
   \<and> ''__proto__'' \<notin> bt_name ` set (filter is_enabled [hero_type])
   \<and> renderBlocks [hero_type] 2026 ([welcome_block] @ [promo_block] @ [welcome_block]) =
       renderBlocks [hero_type] 2026 [welcome_block] @ renderBlocks [hero_type] 2026 [welcome_block]
   \<and> renderBlocks [hero_type] 2026 [welcome_block] = ''<h1>Welcome</h1>''"
proof -
  have n: "btype promo_block \<notin> bt_name ` set (filter is_enabled [hero_type])"
    by (simp add: hero_type_def promo_block_def)
  have o: "btype promo_block \<notin> set object_members"
    by (simp add: object_members_def promo_block_def)
  have w: "renderBlocks [hero_type] 2026 [welcome_block] = ''<h1>Welcome</h1>''"
    by (simp add: render_eval)
  have p: "''__proto__'' \<notin> bt_name ` set (filter is_enabled [hero_type])"
    by (simp add: hero_type_def)
  from unknown_type_skipped [OF n o p, of 2026 "[welcome_block]" "[welcome_block]"] n o p w
  show ?thesis by simp
qed

text \<open>A type that is no row's name but a member of \<^verbatim>\<open>Object.prototype\<close> is not
  skipped: \<^verbatim>\<open>constructor\<close> appends the config object as a string, \<^verbatim>\<open>__proto__\<close> is not
  a function and gives the error marker.\<close>

lemma inherited_member_not_skipped:
  "renderBlocks [hero_type] 2026 [\<lparr>btype = ''constructor'', config = Some (JObj [])\<rparr>] =
     ''[object Object]''
   \<and> renderBlocks [hero_type] 2026 [\<lparr>btype = ''__proto__'', config = Some (JObj [])\<rparr>] =
       ''<!-- Error rendering __proto__ block -->''"
  by (simp add: render_eval)

text \<open>
  C6: when the \<^verbatim>\<open>try\<close> body of a block throws (the compiled template, or the steps
  before it), the block's place in the output is taken by
  \<^verbatim>\<open><!-- Error rendering {type} block -->\<close>, the blocks before and after it render as
  they do without it, and the fragments are concatenated in block order.
\<close>

theorem failing_block_isolated:
  assumes "templates (btype b) = Some tpl"
    and "render_try tpl year (config b) = Inl e"
  shows "renderBlocksWith templates year (pre @ [b] @ post) =
           renderBlocksWith templates year pre @ error_marker (btype b)
             @ renderBlocksWith templates year post"
  using fragment_error [of templates b tpl year e] assms
  by (simp add: renderBlocksWith_snoc_split del: append_Cons)

text \<open>C6 with a gallery block that has no \<^verbatim>\<open>images\<close>: the \<^verbatim>\<open>each\<close> helper reads
  \<^verbatim>\<open>context.length\<close> of \<^verbatim>\<open>undefined\<close> and throws; the hero blocks around it render.\<close>

theorem failing_block_isolated_witness:
  "templates_lookup (build_templates (filter is_enabled [hero_type, gallery_type]) Map.empty)
     (btype broken_gallery_block) = Some (run_template (bt_template gallery_type))
   \<and> render_try (run_template (bt_template gallery_type)) 2026 (config broken_gallery_block)
       = Inl TypeError
   \<and> renderBlocks [hero_type, gallery_type] 2026
       ([welcome_block] @ [broken_gallery_block] @ [welcome_block]) =
       ''<h1>Welcome</h1><!-- Error rendering gallery block --><h1>Welcome</h1>''"
proof -
  have t: "templates_lookup
     (build_templates (filter is_enabled [hero_type, gallery_type]) Map.empty)
     (btype broken_gallery_block) = Some (run_template (bt_template gallery_type))"
    by (simp add: templates_lookup_def hero_type_def gallery_type_def broken_gallery_block_def)
  have f: "render_try (run_template (bt_template gallery_type)) 2026 (config broken_gallery_block)
       = Inl TypeError"
    by (simp add: render_eval)
  have w: "renderBlocks [hero_type, gallery_type] 2026 [welcome_block] = ''<h1>Welcome</h1>''"
    by (simp add: render_eval)
  have m: "error_marker (btype broken_gallery_block) = ''<!-- Error rendering gallery block -->''"
    by (simp add: error_marker_def broken_gallery_block_def)
  from failing_block_isolated [where b = broken_gallery_block and year = 2026
      and templates = "templates_lookup
        (build_templates (filter is_enabled [hero_type, gallery_type]) Map.empty)"
      and tpl = "run_template (bt_template gallery_type)" and e = TypeError
      and pre = "[welcome_block]" and post = "[welcome_block]"] t f
  have "renderBlocks [hero_type, gallery_type] 2026
          ([welcome_block] @ [broken_gallery_block] @ [welcome_block]) =
        renderBlocks [hero_type, gallery_type] 2026 [welcome_block]
          @ error_marker (btype broken_gallery_block)
          @ renderBlocks [hero_type, gallery_type] 2026 [welcome_block]"
    by (simp only: renderBlocks_def)
  with t f w m show ?thesis by simp
qed

text \<open>
  C7: with the same block types and the same clock, rendering a block list equals
  the concatenation of rendering each block on its own.
\<close>

theorem render_composable:
  "renderBlocks block_types year blocks =
     concat (map (\<lambda>b. renderBlocks block_types year [b]) blocks)"
proof (induction blocks)
  case Nil
  show ?case by (simp add: renderBlocks_def renderBlocksWith_Nil)
next
  case (Cons b blocks)
  have "renderBlocks block_types year (b # blocks) =
          renderBlocks block_types year [b] @ renderBlocks block_types year blocks"
    using renderBlocksWith_append [of _ year "[b]" blocks] by (simp add: renderBlocks_def)
  with Cons.IH show ?case by simp
qed

text \<open>
  C10: for a block whose type is registered and whose \<^verbatim>\<open>config\<close> is missing, \<^verbatim>\<open>null\<close>, a
  boolean, a number or a string, the sanitizer returns the config unchanged, the
  \<^verbatim>\<open>try\<close> body throws a TypeError before the template runs, and the block renders as
  \<^verbatim>\<open><!-- Error rendering {type} block -->\<close>.
\<close>

theorem non_object_config_error_marker:
  assumes "templates (btype b) = Some tpl"
    and "non_object_config (config b)"
  shows "map_option escapeBlockConfig (config b) = config b
         \<and> render_try tpl year (config b) = Inl TypeError
         \<and> fragment templates year b = error_marker (btype b)
         \<and> renderBlocksWith templates year (pre @ [b] @ post) =
             renderBlocksWith templates year pre @ error_marker (btype b)
               @ renderBlocksWith templates year post"
proof -
  have t: "render_try tpl year (config b) = Inl TypeError"
    using assms(2) by (rule render_try_non_object)
  have f: "fragment templates year b = error_marker (btype b)"
    using assms(1) t by (rule fragment_error)
  show ?thesis
    using t f escape_non_object [OF assms(2)]
    by (simp add: renderBlocksWith_snoc_split del: append_Cons)
qed

text \<open>C10 with the hero type registered and a hero block whose config is the string
  Welcome.\<close>

theorem non_object_config_witness:
  "templates_lookup (build_templates (filter is_enabled [hero_type]) Map.empty)
     (btype scalar_config_block) = Some (run_template (bt_template hero_type))
   \<and> non_object_config (config scalar_config_block)
   \<and> renderBlocks [hero_type] 2026 [scalar_config_block] = ''<!-- Error rendering hero block -->''"
proof -
  have t: "templates_lookup (build_templates (filter is_enabled [hero_type]) Map.empty)
     (btype scalar_config_block) = Some (run_template (bt_template hero_type))"
    by (simp add: templates_lookup_def hero_type_def scalar_config_block_def)
  have n: "non_object_config (config scalar_config_block)"
    by (simp add: scalar_config_block_def)
  have m: "error_marker (btype scalar_config_block) = ''<!-- Error rendering hero block -->''"
    by (simp add: error_marker_def scalar_config_block_def)
  from non_object_config_error_marker [where b = scalar_config_block and year = 2026
      and templates = "templates_lookup (build_templates (filter is_enabled [hero_type]) Map.empty)"
      and tpl = "run_template (bt_template hero_type)" and pre = "[]" and post = "[]"] t n m
  show ?thesis
    by (simp add: renderBlocks_def fragment_def)
qed

section \<open>Properties of the version snapshots\<close>

lemmas db_eval =
  example_db_def example_put_def hero_blocks_def put_page_def select_page_def
  select_max_version_def or_zero_def insert_version_def update_page_def set_columns_def
  coalesce_def column_value_def int4_def Let_def

text \<open>
  C8 (the code departs from it): the route hands \<^verbatim>\<open>existingPage.rows[0].blocks\<close>, a
  JavaScript array, to the \<^verbatim>\<open>INSERT\<close> as it is. For page 1, whose block list is not
  empty, the statement is rejected: the route answers 500, no version row is
  written, and the page is not updated. For page 2, whose block list is empty, a
  version row is written, but its snapshot is the empty object, not the page's
  empty list.
\<close>

theorem snapshot_insert_rejected:
  "put_page jsonb_in (example_put 1 None None) example_db = (example_db, Error500)
   \<and> page_versions (fst (put_page jsonb_in (example_put 2 None None) example_db)) =
       [\<lparr>pv_page_id = 2, version_number = 1, pv_blocks = JObj [], created_by = 5\<rparr>]
   \<and> map page_blocks (select_page example_db 2 7) = [Some (JArr [])]"
  by (simp add: db_eval)

text \<open>
  C9 (the code departs from it): the snapshot insert and the page update are two
  separate statements with no transaction around them. On the example database, a
  request to give page 2 the slug of page 1 stores version 1 of page 2 and then
  fails in the update (\<^verbatim>\<open>UNIQUE(tenant_id, slug)\<close>); a request to give page 2 a list
  with one block stores version 1 and then fails in the update, whose \<^verbatim>\<open>blocks\<close>
  parameter is rejected. Both answer 500, and the version row stays with no page
  update to go with it.
\<close>

theorem put_page_orphaned_version:
  "put_page jsonb_in (example_put 2 (Some ''home'') None) example_db =
     (example_db\<lparr>page_versions :=
        [\<lparr>pv_page_id = 2, version_number = 1, pv_blocks = JObj [], created_by = 5\<rparr>]\<rparr>,
      Error500)
   \<and> put_page jsonb_in (example_put 2 None (Some hero_blocks)) example_db =
     (example_db\<lparr>page_versions :=
        [\<lparr>pv_page_id = 2, version_number = 1, pv_blocks = JObj [], created_by = 5\<rparr>]\<rparr>,
      Error500)"
  by (simp add: db_eval)

end
